theory Spec2Isabelle
  imports Complex_Main
begin

section \<open>Numbers of the numpy arrays\<close>

text \<open>
  The kernel of \<^verbatim>\<open>src/ACPC/ACPC.py\<close> computes on numpy arrays of floats. numpy does not
  raise on a division by zero: \<^verbatim>\<open>0/0\<close> is \<^verbatim>\<open>nan\<close> and \<^verbatim>\<open>a/0\<close> is an infinity
  (a warning is printed, the computation goes on). The model keeps that: a number is a
  real, an infinity or NaN, and the operations follow IEEE 754 on these values.

  A finite result is the exact real number. The program's doubles round each result and
  can overflow or underflow; the model follows none of that, and the sign of zero is not
  kept (a zero divisor counts as \<^verbatim>\<open>+0.0\<close>, which is what a norm returns). So nothing
  below is stated about the value of a finite result in general. The theorems are of two
  kinds. Some do not depend on what a finite operation returns: which branch is taken,
  whether an error is raised, which expression fills which entry. The others are
  evaluations at single inputs, chosen so that the doubles give NaN in the same entries
  as the model: every operation there is exact in doubles, except the quotient
  \<open>1 / sqrt 2\<close> of C4 to C6, which doubles round, and which meets only itself in the
  difference that decides between zero and non-zero.
\<close>

datatype npfloat = Fin real | PInf | NInf | NaN

definition inf_signed :: "bool \<Rightarrow> npfloat" where
  "inf_signed positive = (if positive then PInf else NInf)"

fun fneg :: "npfloat \<Rightarrow> npfloat" where
  "fneg (Fin a) = Fin (- a)"
| "fneg PInf = NInf"
| "fneg NInf = PInf"
| "fneg NaN = NaN"

fun fadd :: "npfloat \<Rightarrow> npfloat \<Rightarrow> npfloat" where
  "fadd (Fin a) (Fin b) = Fin (a + b)"
| "fadd NaN _ = NaN"
| "fadd _ NaN = NaN"
| "fadd PInf NInf = NaN"
| "fadd NInf PInf = NaN"
| "fadd PInf _ = PInf"
| "fadd _ PInf = PInf"
| "fadd NInf _ = NInf"
| "fadd _ NInf = NInf"

definition fsub :: "npfloat \<Rightarrow> npfloat \<Rightarrow> npfloat" where
  "fsub a b = fadd a (fneg b)"

fun fmul :: "npfloat \<Rightarrow> npfloat \<Rightarrow> npfloat" where
  "fmul (Fin a) (Fin b) = Fin (a * b)"
| "fmul NaN _ = NaN"
| "fmul _ NaN = NaN"
| "fmul (Fin a) PInf = (if a = 0 then NaN else inf_signed (0 < a))"
| "fmul (Fin a) NInf = (if a = 0 then NaN else inf_signed (a < 0))"
| "fmul PInf (Fin b) = (if b = 0 then NaN else inf_signed (0 < b))"
| "fmul NInf (Fin b) = (if b = 0 then NaN else inf_signed (b < 0))"
| "fmul PInf PInf = PInf"
| "fmul PInf NInf = NInf"
| "fmul NInf PInf = NInf"
| "fmul NInf NInf = PInf"

fun fdiv :: "npfloat \<Rightarrow> npfloat \<Rightarrow> npfloat" where
  "fdiv (Fin a) (Fin b) =
     (if b \<noteq> 0 then Fin (a / b) else if a = 0 then NaN else inf_signed (0 < a))"
| "fdiv NaN _ = NaN"
| "fdiv _ NaN = NaN"
| "fdiv (Fin a) PInf = Fin 0"
| "fdiv (Fin a) NInf = Fin 0"
| "fdiv PInf (Fin b) = inf_signed (0 \<le> b)"
| "fdiv NInf (Fin b) = inf_signed (b < 0)"
| "fdiv PInf PInf = NaN"
| "fdiv PInf NInf = NaN"
| "fdiv NInf PInf = NaN"
| "fdiv NInf NInf = NaN"

fun fabs :: "npfloat \<Rightarrow> npfloat" where
  "fabs (Fin a) = Fin \<bar>a\<bar>"
| "fabs PInf = PInf"
| "fabs NInf = PInf"
| "fabs NaN = NaN"

fun fsqrt :: "npfloat \<Rightarrow> npfloat" where
  "fsqrt (Fin a) = (if a < 0 then NaN else Fin (sqrt a))"
| "fsqrt PInf = PInf"
| "fsqrt NInf = NaN"
| "fsqrt NaN = NaN"

text \<open>The comparison \<^verbatim>\<open>a > b\<close>: false as soon as one side is NaN.\<close>

fun fgt :: "npfloat \<Rightarrow> npfloat \<Rightarrow> bool" where
  "fgt (Fin a) (Fin b) = (b < a)"
| "fgt NaN _ = False"
| "fgt _ NaN = False"
| "fgt PInf PInf = False"
| "fgt PInf _ = True"
| "fgt _ PInf = False"
| "fgt NInf _ = False"
| "fgt _ NInf = True"

section \<open>Arrays of three numbers\<close>

type_synonym vec3 = "npfloat \<times> npfloat \<times> npfloat"

text \<open>\<^verbatim>\<open>v[1]\<close>, the anterior (Y) coordinate of a position.\<close>

fun idx1 :: "vec3 \<Rightarrow> npfloat" where
  "idx1 (a0, a1, a2) = a1"

fun vsub :: "vec3 \<Rightarrow> vec3 \<Rightarrow> vec3" where
  "vsub (a0, a1, a2) (b0, b1, b2) = (fsub a0 b0, fsub a1 b1, fsub a2 b2)"

fun vadd :: "vec3 \<Rightarrow> vec3 \<Rightarrow> vec3" where
  "vadd (a0, a1, a2) (b0, b1, b2) = (fadd a0 b0, fadd a1 b1, fadd a2 b2)"

text \<open>An array divided by a scalar.\<close>

fun vdiv :: "vec3 \<Rightarrow> npfloat \<Rightarrow> vec3" where
  "vdiv (a0, a1, a2) s = (fdiv a0 s, fdiv a1 s, fdiv a2 s)"

fun vneg :: "vec3 \<Rightarrow> vec3" where
  "vneg (a0, a1, a2) = (fneg a0, fneg a1, fneg a2)"

fun np_abs :: "vec3 \<Rightarrow> vec3" where
  "np_abs (a0, a1, a2) = (fabs a0, fabs a1, fabs a2)"

fun np_dot :: "vec3 \<Rightarrow> vec3 \<Rightarrow> npfloat" where
  "np_dot (a0, a1, a2) (b0, b1, b2) = fadd (fadd (fmul a0 b0) (fmul a1 b1)) (fmul a2 b2)"

text \<open>\<^verbatim>\<open>np.linalg.norm\<close> of a one-dimensional array: the root of the sum of squares.\<close>

definition np_linalg_norm :: "vec3 \<Rightarrow> npfloat" where
  "np_linalg_norm v = fsqrt (np_dot v v)"

fun np_cross :: "vec3 \<Rightarrow> vec3 \<Rightarrow> vec3" where
  "np_cross (a0, a1, a2) (b0, b1, b2) =
     (fsub (fmul a1 b2) (fmul a2 b1),
      fsub (fmul a2 b0) (fmul a0 b2),
      fsub (fmul a0 b1) (fmul a1 b0))"

text \<open>
  \<^verbatim>\<open>np.vstack([xAxis, yAxis, zAxis])\<close> is the 3x3 array with these rows, and
  \<^verbatim>\<open>np.dot(rotation, v)\<close> the array of the rows' dot products with \<open>v\<close>.
\<close>

type_synonym mat3 = "vec3 \<times> vec3 \<times> vec3"

fun np_dot_mat :: "mat3 \<Rightarrow> vec3 \<Rightarrow> vec3" where
  "np_dot_mat (r0, r1, r2) v = (np_dot r0 v, np_dot r1 v, np_dot r2 v)"

section \<open>The AC-PC line and its end points\<close>

text \<open>
  The markups line node, as far as the logic reads it: its two end positions
  (\<^verbatim>\<open>GetLineStartPosition()\<close>, \<^verbatim>\<open>GetLineEndPosition()\<close>).
\<close>

record markups_line =
  LineStartPosition :: vec3
  LineEndPosition :: vec3

text \<open>
  \<^verbatim>\<open>get_acpc_points\<close>: the start is AC when its Y coordinate is strictly larger than
  the end's, otherwise the end is AC.
\<close>

definition get_acpc_points :: "markups_line \<Rightarrow> vec3 \<times> vec3" where
  "get_acpc_points acpcLine =
     (if fgt (idx1 (LineStartPosition acpcLine)) (idx1 (LineEndPosition acpcLine))
      then (LineStartPosition acpcLine, LineEndPosition acpcLine)
      else (LineEndPosition acpcLine, LineStartPosition acpcLine))"

section \<open>The transformation\<close>

datatype error = ValueError

type_synonym matrix = "npfloat list list"

text \<open>
  \<^verbatim>\<open>np.eye(4)\<close> with the rotation written into \<^verbatim>\<open>[:3, :3]\<close> and the translation
  into \<^verbatim>\<open>[:3, 3]\<close>. The conversion to a VTK matrix keeps the sixteen entries.
\<close>

fun build_matrix :: "mat3 \<Rightarrow> vec3 \<Rightarrow> matrix" where
  "build_matrix ((x0, x1, x2), (y0, y1, y2), (z0, z1, z2)) (t0, t1, t2) =
     [[x0, x1, x2, t0],
      [y0, y1, y2, t1],
      [z0, z1, z2, t2],
      [Fin 0, Fin 0, Fin 0, Fin 1]]"

text \<open>
  \<^verbatim>\<open>get_acpc_transformation\<close>. The axes are computed first, with no check on the
  points; the only \<^verbatim>\<open>raise\<close> is the one for an unknown \<^verbatim>\<open>center_on\<close>.
\<close>

definition get_acpc_transformation :: "vec3 \<Rightarrow> vec3 \<Rightarrow> vec3 \<Rightarrow> string \<Rightarrow> error + matrix" where
  "get_acpc_transformation ac pc ih center_on =
     (let pcAc = vsub ac pc;
          yAxis = vdiv pcAc (np_linalg_norm pcAc);
          acIhDir = np_abs (vsub ih ac);
          xAxis = np_cross yAxis acIhDir;
          xAxis = vdiv xAxis (np_linalg_norm xAxis);
          zAxis = np_cross xAxis yAxis;
          rotation = (xAxis, yAxis, zAxis)
      in if center_on = ''MC'' then
           Inr (build_matrix rotation
                  (vneg (np_dot_mat rotation (vdiv (vadd ac pc) (Fin 2)))))
         else if center_on = ''AC'' then
           Inr (build_matrix rotation (vneg (np_dot_mat rotation ac)))
         else if center_on = ''PC'' then
           Inr (build_matrix rotation (vneg (np_dot_mat rotation pc)))
         else Inl ValueError)"

text \<open>
  The kernel's local variables \<^verbatim>\<open>yAxis\<close>, \<^verbatim>\<open>xAxis\<close> and \<^verbatim>\<open>zAxis\<close> as functions
  of its arguments, to name the rows of the result.
\<close>

definition yAxis :: "vec3 \<Rightarrow> vec3 \<Rightarrow> vec3" where
  "yAxis ac pc = vdiv (vsub ac pc) (np_linalg_norm (vsub ac pc))"

definition xAxis :: "vec3 \<Rightarrow> vec3 \<Rightarrow> vec3 \<Rightarrow> vec3" where
  "xAxis ac pc ih =
     vdiv (np_cross (yAxis ac pc) (np_abs (vsub ih ac)))
          (np_linalg_norm (np_cross (yAxis ac pc) (np_abs (vsub ih ac))))"

definition zAxis :: "vec3 \<Rightarrow> vec3 \<Rightarrow> vec3 \<Rightarrow> vec3" where
  "zAxis ac pc ih = np_cross (xAxis ac pc ih) (yAxis ac pc)"

text \<open>
  The two calls of \<^verbatim>\<open>process\<close> that produce the matrix: the end points are
  classified, then the transformation is built from them.
\<close>

definition process_transform :: "markups_line \<Rightarrow> vec3 \<Rightarrow> string \<Rightarrow> error + matrix" where
  "process_transform acpcLine ih centerOn =
     (case get_acpc_points acpcLine of (ac, pc) \<Rightarrow> get_acpc_transformation ac pc ih centerOn)"

section \<open>Reading a matrix\<close>

definition rotation_row :: "matrix \<Rightarrow> nat \<Rightarrow> vec3" where
  "rotation_row m i = (m ! i ! 0, m ! i ! 1, m ! i ! 2)"

definition translation_column :: "matrix \<Rightarrow> vec3" where
  "translation_column m = (m ! 0 ! 3, m ! 1 ! 3, m ! 2 ! 3)"

definition rotation_block :: "matrix \<Rightarrow> mat3" where
  "rotation_block m = (rotation_row m 0, rotation_row m 1, rotation_row m 2)"

definition bottom_row :: "matrix \<Rightarrow> npfloat list" where
  "bottom_row m = m ! 3"

text \<open>
  Applying a 4x4 homogeneous matrix to a point \<open>p\<close>: the first three entries of the
  product with \<open>(p, 1)\<close>.
\<close>

definition transform_point :: "matrix \<Rightarrow> vec3 \<Rightarrow> vec3" where
  "transform_point m p =
     (case np_dot_mat (rotation_block m) p of
        (q0, q1, q2) \<Rightarrow>
          (case translation_column m of
             (t0, t1, t2) \<Rightarrow>
               (fadd q0 (fmul t0 (Fin 1)), fadd q1 (fmul t1 (Fin 1)), fadd q2 (fmul t2 (Fin 1)))))"

section \<open>Finite points\<close>

type_synonym point3 = "real \<times> real \<times> real"

fun fin3 :: "point3 \<Rightarrow> vec3" where
  "fin3 (a0, a1, a2) = (Fin a0, Fin a1, Fin a2)"

text \<open>Points with real coordinates, to state which inputs a theorem is about.\<close>

fun ry :: "point3 \<Rightarrow> real" where
  "ry (a0, a1, a2) = a1"

fun rsub :: "point3 \<Rightarrow> point3 \<Rightarrow> point3" where
  "rsub (a0, a1, a2) (b0, b1, b2) = (a0 - b0, a1 - b1, a2 - b2)"

fun rdot :: "point3 \<Rightarrow> point3 \<Rightarrow> real" where
  "rdot (a0, a1, a2) (b0, b1, b2) = a0 * b0 + a1 * b1 + a2 * b2"

fun rcross :: "point3 \<Rightarrow> point3 \<Rightarrow> point3" where
  "rcross (a0, a1, a2) (b0, b1, b2) =
     (a1 * b2 - a2 * b1, a2 * b0 - a0 * b2, a0 * b1 - a1 * b0)"

text \<open>
  \<open>ih\<close> lies on the line through \<open>ac\<close> and \<open>pc\<close>: the offsets \<open>ih - ac\<close> and
  \<open>ac - pc\<close> are parallel. This is a property of the three given points, over the reals.
\<close>

definition collinear3 :: "point3 \<Rightarrow> point3 \<Rightarrow> point3 \<Rightarrow> bool" where
  "collinear3 ac pc ih = (rcross (rsub ih ac) (rsub ac pc) = (0, 0, 0))"

definition recognized :: "string \<Rightarrow> bool" where
  "recognized center_on = (center_on = ''MC'' \<or> center_on = ''AC'' \<or> center_on = ''PC'')"

section \<open>The frame as the specification words it\<close>

text \<open>
  Section 4.2 of the specification, written out from its words and not from the kernel:
  \<open>y = normalize(ac - pc)\<close>, \<open>d = |ih - ac|\<close> component by component,
  \<open>x = normalize(cross(y, d))\<close>, \<open>z = cross(x, y)\<close>. The absolute value is the number
  itself, negated when it is below zero; the cross product is the usual one; to normalize
  is to divide each component by the root of the sum of the squares.
\<close>

definition spec_abs :: "npfloat \<Rightarrow> npfloat" where
  "spec_abs a = (if fgt (Fin 0) a then fneg a else a)"

fun spec_minus :: "vec3 \<Rightarrow> vec3 \<Rightarrow> vec3" where
  "spec_minus (a0, a1, a2) (b0, b1, b2) = (fsub a0 b0, fsub a1 b1, fsub a2 b2)"

fun spec_abs3 :: "vec3 \<Rightarrow> vec3" where
  "spec_abs3 (a0, a1, a2) = (spec_abs a0, spec_abs a1, spec_abs a2)"

fun spec_cross :: "vec3 \<Rightarrow> vec3 \<Rightarrow> vec3" where
  "spec_cross (a0, a1, a2) (b0, b1, b2) =
     (fsub (fmul a1 b2) (fmul a2 b1),
      fsub (fmul a2 b0) (fmul a0 b2),
      fsub (fmul a0 b1) (fmul a1 b0))"

fun spec_length :: "vec3 \<Rightarrow> npfloat" where
  "spec_length (a0, a1, a2) = fsqrt (fadd (fadd (fmul a0 a0) (fmul a1 a1)) (fmul a2 a2))"

fun spec_normalize :: "vec3 \<Rightarrow> vec3" where
  "spec_normalize (a0, a1, a2) =
     (fdiv a0 (spec_length (a0, a1, a2)),
      fdiv a1 (spec_length (a0, a1, a2)),
      fdiv a2 (spec_length (a0, a1, a2)))"

definition spec_y :: "vec3 \<Rightarrow> vec3 \<Rightarrow> vec3" where
  "spec_y ac pc = spec_normalize (spec_minus ac pc)"

definition spec_d :: "vec3 \<Rightarrow> vec3 \<Rightarrow> vec3" where
  "spec_d ac ih = spec_abs3 (spec_minus ih ac)"

definition spec_x :: "vec3 \<Rightarrow> vec3 \<Rightarrow> vec3 \<Rightarrow> vec3" where
  "spec_x ac pc ih = spec_normalize (spec_cross (spec_y ac pc) (spec_d ac ih))"

definition spec_z :: "vec3 \<Rightarrow> vec3 \<Rightarrow> vec3 \<Rightarrow> vec3" where
  "spec_z ac pc ih = spec_cross (spec_x ac pc ih) (spec_y ac pc)"

section \<open>Auxiliary facts\<close>

lemma sqrt_100: "sqrt 100 = 10"
  by (rule real_sqrt_unique) simp_all

lemma sqrt_400: "sqrt 400 = 20"
  by (rule real_sqrt_unique) simp_all

lemma fgt_irrefl: "\<not> fgt a a"
  by (cases a) simp_all

lemma fin3_inject: "fin3 a = fin3 b \<longleftrightarrow> a = b"
  by (cases a; cases b) simp

lemma idx1_fin3: "idx1 (fin3 a) = Fin (ry a)"
  by (cases a) simp

lemma rdot_self_eq_0: "rdot v v = 0 \<longleftrightarrow> v = (0, 0, 0)"
  by (cases v) (auto simp: power2_eq_square[symmetric] add_nonneg_eq_0_iff)

lemma rsub_eq_zero: "rsub a b = (0, 0, 0) \<longleftrightarrow> a = b"
  by (cases a; cases b) auto

text \<open>
  The cross-product test is the usual notion: for distinct \<open>ac\<close> and \<open>pc\<close>, the point
  \<open>ih\<close> is collinear with them exactly when \<open>ih - ac\<close> is a multiple of \<open>ac - pc\<close>.
\<close>

lemma collinear3_iff_on_line:
  assumes "ac \<noteq> pc"
  shows "collinear3 ac pc ih \<longleftrightarrow>
         (\<exists>t. rsub ih ac = (case rsub ac pc of (v0, v1, v2) \<Rightarrow> (t * v0, t * v1, t * v2)))"
proof -
  obtain v0 v1 v2 where v: "rsub ac pc = (v0, v1, v2)" by (cases "rsub ac pc")
  obtain w0 w1 w2 where w: "rsub ih ac = (w0, w1, w2)" by (cases "rsub ih ac")
  have "rsub ac pc \<noteq> (0, 0, 0)" using assms by (simp add: rsub_eq_zero)
  then have "rdot (rsub ac pc) (rsub ac pc) \<noteq> 0" by (simp only: rdot_self_eq_0) simp
  then have nz: "v0 * v0 + v1 * v1 + v2 * v2 \<noteq> 0" by (simp add: v)
  show ?thesis
  proof
    assume "collinear3 ac pc ih"
    then have c: "w1 * v2 = w2 * v1" "w2 * v0 = w0 * v2" "w0 * v1 = w1 * v0"
      by (simp_all add: collinear3_def v w)
    define n where "n = v0 * v0 + v1 * v1 + v2 * v2"
    define t where "t = (w0 * v0 + w1 * v1 + w2 * v2) / n"
    have n: "n \<noteq> 0" using nz by (simp add: n_def)
    have "w0 * n = (w0 * v0 + w1 * v1 + w2 * v2) * v0"
      unfolding n_def using c by algebra
    moreover have "w1 * n = (w0 * v0 + w1 * v1 + w2 * v2) * v1"
      unfolding n_def using c by algebra
    moreover have "w2 * n = (w0 * v0 + w1 * v1 + w2 * v2) * v2"
      unfolding n_def using c by algebra
    ultimately have "w0 = t * v0" "w1 = t * v1" "w2 = t * v2"
      using n by (simp_all add: t_def field_simps)
    then show "\<exists>t. rsub ih ac = (case rsub ac pc of (v0, v1, v2) \<Rightarrow> (t * v0, t * v1, t * v2))"
      by (auto simp: v w)
  next
    assume "\<exists>t. rsub ih ac = (case rsub ac pc of (v0, v1, v2) \<Rightarrow> (t * v0, t * v1, t * v2))"
    then show "collinear3 ac pc ih"
      by (auto simp: v w collinear3_def)
  qed
qed

text \<open>The specification's operations and the array operations of the kernel agree.\<close>

lemma spec_abs_fabs: "spec_abs a = fabs a"
  by (cases a) (simp_all add: spec_abs_def)

lemma spec_abs3_np_abs: "spec_abs3 v = np_abs v"
  by (cases v) (simp add: spec_abs_fabs)

lemma spec_minus_vsub: "spec_minus a b = vsub a b"
  by (cases a; cases b) simp

lemma spec_cross_np_cross: "spec_cross a b = np_cross a b"
  by (cases a; cases b) simp

lemma spec_normalize_vdiv: "spec_normalize v = vdiv v (np_linalg_norm v)"
  by (cases v) (simp add: np_linalg_norm_def)

lemma rotation_row_build:
  "rotation_row (build_matrix (x, y, z) t) 0 = x"
  "rotation_row (build_matrix (x, y, z) t) 1 = y"
  "rotation_row (build_matrix (x, y, z) t) 2 = z"
  by (cases x; cases y; cases z; cases t; simp add: rotation_row_def)+

lemma rotation_block_build: "rotation_block (build_matrix r t) = r"
  by (cases r rule: prod_cases3) (simp only: rotation_block_def rotation_row_build)

lemma bottom_row_build: "bottom_row (build_matrix r t) = [Fin 0, Fin 0, Fin 0, Fin 1]"
  by (cases "(r, t)" rule: build_matrix.cases) (simp add: bottom_row_def)

lemma get_acpc_transformation_rows:
  assumes "recognized center_on"
  shows "get_acpc_transformation ac pc ih center_on =
     Inr (build_matrix (xAxis ac pc ih, yAxis ac pc, zAxis ac pc ih)
            (vneg (np_dot_mat (xAxis ac pc ih, yAxis ac pc, zAxis ac pc ih)
                     (if center_on = ''MC'' then vdiv (vadd ac pc) (Fin 2)
                      else if center_on = ''AC'' then ac else pc))))"
  using assms
  by (auto simp: get_acpc_transformation_def Let_def recognized_def xAxis_def yAxis_def
        zAxis_def)

section \<open>Classifying the end points\<close>

text \<open>
  C10. When the two end points have exactly the same Y coordinate, the strict comparison is
  false and \<^verbatim>\<open>get_acpc_points\<close> returns the end position as AC and the start position
  as PC; there is no error branch.
\<close>

theorem get_acpc_points_tie:
  "idx1 a = idx1 b \<Longrightarrow>
   get_acpc_points \<lparr>LineStartPosition = a, LineEndPosition = b\<rparr> = (b, a)"
  by (simp add: get_acpc_points_def fgt_irrefl)

theorem get_acpc_points_tie_witness:
  "idx1 (fin3 (1, 5, 0)) = idx1 (fin3 (-2, 5, 3)) \<and>
   get_acpc_points \<lparr>LineStartPosition = fin3 (1, 5, 0), LineEndPosition = fin3 (-2, 5, 3)\<rparr>
     = (fin3 (-2, 5, 3), fin3 (1, 5, 0))"
proof -
  have h: "idx1 (fin3 (1, 5, 0)) = idx1 (fin3 (-2, 5, 3))" by simp
  show ?thesis by (rule conjI[OF h get_acpc_points_tie[OF h]])
qed

text \<open>
  C8. For two finite end points \<^verbatim>\<open>get_acpc_points\<close> returns a pair of (finite) points,
  and when the Y coordinates differ, the returned AC is the end point with the strictly
  larger Y coordinate and the returned PC is the other end point.
\<close>

theorem get_acpc_points_anterior:
  "\<exists>ac pc. get_acpc_points \<lparr>LineStartPosition = fin3 a, LineEndPosition = fin3 b\<rparr>
             = (fin3 ac, fin3 pc) \<and>
           (ry a \<noteq> ry b \<longrightarrow>
              ry pc < ry ac \<and> ((ac = a \<and> pc = b) \<or> (ac = b \<and> pc = a)))"
proof (cases "ry b < ry a")
  case True
  then have "get_acpc_points \<lparr>LineStartPosition = fin3 a, LineEndPosition = fin3 b\<rparr>
               = (fin3 a, fin3 b)"
    by (simp add: get_acpc_points_def idx1_fin3)
  with True show ?thesis by blast
next
  case False
  then have "get_acpc_points \<lparr>LineStartPosition = fin3 a, LineEndPosition = fin3 b\<rparr>
               = (fin3 b, fin3 a)"
    by (simp add: get_acpc_points_def idx1_fin3)
  moreover from False have "ry a \<noteq> ry b \<longrightarrow> ry a < ry b" by simp
  ultimately show ?thesis by blast
qed

theorem get_acpc_points_anterior_witness:
  "ry (0, -10, 0) \<noteq> ry (0, 10, 0) \<and>
   get_acpc_points \<lparr>LineStartPosition = fin3 (0, -10, 0), LineEndPosition = fin3 (0, 10, 0)\<rparr>
     = (fin3 (0, 10, 0), fin3 (0, -10, 0))"
  using get_acpc_points_anterior [of "(0, -10, 0)" "(0, 10, 0)"]
  by (auto simp: fin3_inject)

lemma get_acpc_points_swap:
  assumes "ry a \<noteq> ry b"
  shows "get_acpc_points \<lparr>LineStartPosition = fin3 a, LineEndPosition = fin3 b\<rparr>
       = get_acpc_points \<lparr>LineStartPosition = fin3 b, LineEndPosition = fin3 a\<rparr>"
  using assms by (auto simp: get_acpc_points_def idx1_fin3)

text \<open>
  C7. For a line whose finite end points have distinct Y coordinates, classifying the end
  points and then building the transformation gives the same result (the same matrix, or
  the same error) whichever end point the line stores first, for every \<open>ih\<close> and
  \<open>center_on\<close>.
\<close>

theorem endpoint_order_invariance:
  assumes "ry a \<noteq> ry b"
  shows "process_transform \<lparr>LineStartPosition = fin3 a, LineEndPosition = fin3 b\<rparr> ih center_on
       = process_transform \<lparr>LineStartPosition = fin3 b, LineEndPosition = fin3 a\<rparr> ih center_on"
  unfolding process_transform_def using get_acpc_points_swap[OF assms] by simp

theorem endpoint_order_invariance_witness:
  "ry (0, 10, 0) \<noteq> ry (0, -10, 0) \<and>
   process_transform \<lparr>LineStartPosition = fin3 (0, 10, 0), LineEndPosition = fin3 (0, -10, 0)\<rparr>
       (fin3 (10, 0, 0)) ''MC''
   = process_transform \<lparr>LineStartPosition = fin3 (0, -10, 0), LineEndPosition = fin3 (0, 10, 0)\<rparr>
       (fin3 (10, 0, 0)) ''MC''"
proof -
  have h: "ry (0, 10, 0) \<noteq> ry (0, -10, 0)" by simp
  show ?thesis by (rule conjI[OF h endpoint_order_invariance[OF h]])
qed

section \<open>The centering mode\<close>

text \<open>
  C2. \<^verbatim>\<open>get_acpc_transformation\<close> raises the \<^verbatim>\<open>ValueError\<close> exactly when
  \<open>center_on\<close> is none of \<open>MC\<close>, \<open>AC\<close>, \<open>PC\<close>, and returns a matrix exactly when it is
  one of them, whatever the points are.
\<close>

theorem center_on_error_iff:
  "(get_acpc_transformation ac pc ih center_on = Inl ValueError) = (\<not> recognized center_on) \<and>
   (\<exists>m. get_acpc_transformation ac pc ih center_on = Inr m) = recognized center_on"
  by (auto simp: get_acpc_transformation_def Let_def recognized_def)

section \<open>The rows of the matrix\<close>

text \<open>
  C3. For every recognized \<open>center_on\<close> the returned matrix has the rotation rows
  \<open>x\<close>, \<open>y\<close>, \<open>z\<close> of the specification: \<open>y\<close> is \<open>ac - pc\<close> normalized, \<open>x\<close> is
  \<open>cross(y, d)\<close> normalized with \<open>d\<close> the component-wise absolute value of \<open>ih - ac\<close>,
  \<open>z\<close> is \<open>cross(x, y)\<close>; and its bottom row is \<open>(0, 0, 0, 1)\<close>. The witness is an
  input with \<open>ih - ac = (-10, -10, 0)\<close>, where the absolute value decides the sign of
  the X axis.
\<close>

theorem frame_rows_as_specified:
  assumes "recognized center_on"
  shows "\<exists>m. get_acpc_transformation ac pc ih center_on = Inr m \<and>
             rotation_block m = (spec_x ac pc ih, spec_y ac pc, spec_z ac pc ih) \<and>
             bottom_row m = [Fin 0, Fin 0, Fin 0, Fin 1]"
proof -
  have y: "spec_y ac pc = yAxis ac pc"
    by (simp only: spec_y_def spec_normalize_vdiv spec_minus_vsub yAxis_def)
  have x: "spec_x ac pc ih = xAxis ac pc ih"
    by (simp only: spec_x_def spec_d_def y spec_normalize_vdiv spec_minus_vsub
          spec_abs3_np_abs spec_cross_np_cross xAxis_def)
  have z: "spec_z ac pc ih = zAxis ac pc ih"
    by (simp only: spec_z_def x y spec_cross_np_cross zAxis_def)
  show ?thesis
    unfolding x y z get_acpc_transformation_rows[OF assms]
    by (rule exI, intro conjI, rule refl, rule rotation_block_build, rule bottom_row_build)
qed

theorem frame_rows_as_specified_witness:
  "recognized ''AC'' \<and>
   (\<exists>m. get_acpc_transformation (fin3 (0, 10, 0)) (fin3 (0, -10, 0)) (fin3 (-10, 0, 0)) ''AC''
           = Inr m \<and>
        rotation_block m = (fin3 (0, 0, -1), fin3 (0, 1, 0), fin3 (1, 0, 0)) \<and>
        bottom_row m = [Fin 0, Fin 0, Fin 0, Fin 1])"
proof -
  have h: "recognized ''AC''" by (simp add: recognized_def)
  have y: "spec_y (fin3 (0, 10, 0)) (fin3 (0, -10, 0)) = fin3 (0, 1, 0)"
    by (simp add: spec_y_def fsub_def sqrt_400)
  have d: "spec_d (fin3 (0, 10, 0)) (fin3 (-10, 0, 0)) = fin3 (10, 10, 0)"
    by (simp add: spec_d_def spec_abs_def fsub_def)
  have x: "spec_x (fin3 (0, 10, 0)) (fin3 (0, -10, 0)) (fin3 (-10, 0, 0)) = fin3 (0, 0, -1)"
    unfolding spec_x_def y d by (simp add: fsub_def sqrt_100)
  have z: "spec_z (fin3 (0, 10, 0)) (fin3 (0, -10, 0)) (fin3 (-10, 0, 0)) = fin3 (1, 0, 0)"
    unfolding spec_z_def x y by (simp add: fsub_def)
  have "\<exists>m. get_acpc_transformation (fin3 (0, 10, 0)) (fin3 (0, -10, 0)) (fin3 (-10, 0, 0)) ''AC''
           = Inr m \<and>
        rotation_block m = (fin3 (0, 0, -1), fin3 (0, 1, 0), fin3 (1, 0, 0)) \<and>
        bottom_row m = [Fin 0, Fin 0, Fin 0, Fin 1]"
    using frame_rows_as_specified[OF h, of "fin3 (0, 10, 0)" "fin3 (0, -10, 0)" "fin3 (-10, 0, 0)"]
    unfolding x y z .
  with h show ?thesis by (rule conjI)
qed

section \<open>The scenario of the specification\<close>

text \<open>
  C9. For AC = (0, 10, 0), PC = (0, -10, 0), IH = (10, 0, 0) and \<open>center_on = MC\<close> the
  kernel returns the matrix below; it maps the origin to itself, its second rotation row
  is (0, 1, 0) and its translation column is (0, 0, 0).
\<close>

theorem concrete_scenario:
  "get_acpc_transformation (fin3 (0, 10, 0)) (fin3 (0, -10, 0)) (fin3 (10, 0, 0)) ''MC'' =
     Inr [[Fin 0, Fin 0, Fin (-1), Fin 0],
          [Fin 0, Fin 1, Fin 0, Fin 0],
          [Fin 1, Fin 0, Fin 0, Fin 0],
          [Fin 0, Fin 0, Fin 0, Fin 1]] \<and>
   transform_point
         [[Fin 0, Fin 0, Fin (-1), Fin 0],
          [Fin 0, Fin 1, Fin 0, Fin 0],
          [Fin 1, Fin 0, Fin 0, Fin 0],
          [Fin 0, Fin 0, Fin 0, Fin 1]] (fin3 (0, 0, 0)) = fin3 (0, 0, 0) \<and>
   rotation_row
         [[Fin 0, Fin 0, Fin (-1), Fin 0],
          [Fin 0, Fin 1, Fin 0, Fin 0],
          [Fin 1, Fin 0, Fin 0, Fin 0],
          [Fin 0, Fin 0, Fin 0, Fin 1]] 1 = fin3 (0, 1, 0) \<and>
   translation_column
         [[Fin 0, Fin 0, Fin (-1), Fin 0],
          [Fin 0, Fin 1, Fin 0, Fin 0],
          [Fin 1, Fin 0, Fin 0, Fin 0],
          [Fin 0, Fin 0, Fin 0, Fin 1]] = fin3 (0, 0, 0)"
  by (simp add: get_acpc_transformation_def Let_def np_linalg_norm_def fsub_def sqrt_400 sqrt_100
       transform_point_def rotation_block_def rotation_row_def translation_column_def)

section \<open>Points that define no frame\<close>

text \<open>
  C1, as amended. The kernel has no check on its points and no error for them: for finite
  points with \<open>ac = pc\<close>, or with \<open>ih\<close> on the line through \<open>ac\<close> and \<open>pc\<close>, and a
  recognized \<open>center_on\<close>, it returns a matrix instead of failing.
\<close>

theorem degenerate_points_return_matrix:
  assumes "ac = pc \<or> collinear3 ac pc ih" and "recognized center_on"
  shows "\<exists>m. get_acpc_transformation (fin3 ac) (fin3 pc) (fin3 ih) center_on = Inr m"
  unfolding get_acpc_transformation_rows[OF assms(2)] by (rule exI, rule refl)

theorem degenerate_points_return_matrix_witness:
  "((0::real, 1::real, 0::real) = (0, 0, 0) \<or> collinear3 (0, 1, 0) (0, 0, 0) (0, 2, 0)) \<and>
   recognized ''MC'' \<and>
   (\<exists>m. get_acpc_transformation (fin3 (0, 1, 0)) (fin3 (0, 0, 0)) (fin3 (0, 2, 0)) ''MC''
           = Inr m)"
proof -
  have h1: "(0::real, 1::real, 0::real) = (0, 0, 0) \<or> collinear3 (0, 1, 0) (0, 0, 0) (0, 2, 0)"
    by (simp add: collinear3_def)
  have h2: "recognized ''MC''" by (simp add: recognized_def)
  show ?thesis by (intro conjI h1 h2 degenerate_points_return_matrix[OF h1 h2])
qed

text \<open>
  C1 as stated fails on both of its cases. With \<open>ac = pc = (0, 0, 0)\<close> the difference is
  the zero vector, its norm is zero, \<open>0/0\<close> is NaN and the kernel returns a matrix of NaN
  rows. With \<open>ih = (0, 2, 0)\<close> on the line through \<open>ac = (0, 1, 0)\<close> and
  \<open>pc = (0, 0, 0)\<close> the Y axis is \<open>(0, 1, 0)\<close>, the cross product with
  \<open>|ih - ac| = (0, 1, 0)\<close> is the zero vector, and the kernel returns a matrix with NaN
  X and Z rows. Every operation on these two inputs is exact in doubles.
\<close>

theorem degenerate_points_counterexample:
  "get_acpc_transformation (fin3 (0, 0, 0)) (fin3 (0, 0, 0)) (fin3 (1, 0, 0)) ''MC'' =
     Inr [[NaN, NaN, NaN, NaN],
          [NaN, NaN, NaN, NaN],
          [NaN, NaN, NaN, NaN],
          [Fin 0, Fin 0, Fin 0, Fin 1]] \<and>
   collinear3 (0, 1, 0) (0, 0, 0) (0, 2, 0) \<and>
   get_acpc_transformation (fin3 (0, 1, 0)) (fin3 (0, 0, 0)) (fin3 (0, 2, 0)) ''MC'' =
     Inr [[NaN, NaN, NaN, NaN],
          [Fin 0, Fin 1, Fin 0, Fin (- (1 / 2))],
          [NaN, NaN, NaN, NaN],
          [Fin 0, Fin 0, Fin 0, Fin 1]]"
  by (simp add: get_acpc_transformation_def Let_def np_linalg_norm_def fsub_def collinear3_def)

section \<open>A reference point off the line that defines no frame\<close>

text \<open>
  The comment in \<^verbatim>\<open>process\<close> describes the reference point as any point on the
  midline plane that is not along the AC-PC line. The points \<open>ac = (0, 1, 1)\<close>,
  \<open>pc = (0, 0, 0)\<close>, \<open>ih = (0, 2, 0)\<close> are such: all three lie in the plane \<open>x = 0\<close>,
  \<open>ac\<close> is anterior to \<open>pc\<close>, and \<open>ih\<close> is off the line. But
  \<open>|ih - ac| = |(0, 1, -1)| = (0, 1, 1)\<close> is parallel to \<open>ac - pc\<close>, the cross product
  is the zero vector, and \<open>0/0\<close> makes the X-axis and Z-axis rows NaN. The two components
  of the Y axis are the same quotient, so the cross product is exactly zero in floating
  point as well.
\<close>

text \<open>
  C4. The claim: for distinct \<open>ac\<close>, \<open>pc\<close> and \<open>ih\<close> off their line, the returned matrix
  maps the selected origin to \<open>(0, 0, 0)\<close>. The code at the points above with
  \<open>center_on = PC\<close>: the origin \<open>pc\<close> is mapped to \<open>(NaN, 0, NaN)\<close>.
\<close>

theorem centering_fails_at:
  "(0::real, 1::real, 1::real) \<noteq> (0, 0, 0) \<and> \<not> collinear3 (0, 1, 1) (0, 0, 0) (0, 2, 0) \<and>
   get_acpc_transformation (fin3 (0, 1, 1)) (fin3 (0, 0, 0)) (fin3 (0, 2, 0)) ''PC'' =
     Inr [[NaN, NaN, NaN, NaN],
          [Fin 0, Fin (1 / sqrt 2), Fin (1 / sqrt 2), Fin 0],
          [NaN, NaN, NaN, NaN],
          [Fin 0, Fin 0, Fin 0, Fin 1]] \<and>
   transform_point
         [[NaN, NaN, NaN, NaN],
          [Fin 0, Fin (1 / sqrt 2), Fin (1 / sqrt 2), Fin 0],
          [NaN, NaN, NaN, NaN],
          [Fin 0, Fin 0, Fin 0, Fin 1]] (fin3 (0, 0, 0)) = (NaN, Fin 0, NaN)"
  by (simp add: get_acpc_transformation_def Let_def np_linalg_norm_def fsub_def collinear3_def
        transform_point_def rotation_block_def rotation_row_def translation_column_def)

text \<open>
  C5. The claim: for distinct \<open>ac\<close>, \<open>pc\<close> and \<open>ih\<close> off their line, the three rotation
  rows have unit norm and are pairwise orthogonal. The code at the points above with
  \<open>center_on = MC\<close>: the norm of the X-axis row is NaN, and so is its dot product with
  the Y-axis row.
\<close>

theorem orthonormality_fails_at:
  "(0::real, 1::real, 1::real) \<noteq> (0, 0, 0) \<and> \<not> collinear3 (0, 1, 1) (0, 0, 0) (0, 2, 0) \<and>
   get_acpc_transformation (fin3 (0, 1, 1)) (fin3 (0, 0, 0)) (fin3 (0, 2, 0)) ''MC'' =
     Inr [[NaN, NaN, NaN, NaN],
          [Fin 0, Fin (1 / sqrt 2), Fin (1 / sqrt 2), Fin (- (1 / sqrt 2))],
          [NaN, NaN, NaN, NaN],
          [Fin 0, Fin 0, Fin 0, Fin 1]] \<and>
   np_linalg_norm (rotation_row
         [[NaN, NaN, NaN, NaN],
          [Fin 0, Fin (1 / sqrt 2), Fin (1 / sqrt 2), Fin (- (1 / sqrt 2))],
          [NaN, NaN, NaN, NaN],
          [Fin 0, Fin 0, Fin 0, Fin 1]] 0) = NaN \<and>
   np_dot (rotation_row
         [[NaN, NaN, NaN, NaN],
          [Fin 0, Fin (1 / sqrt 2), Fin (1 / sqrt 2), Fin (- (1 / sqrt 2))],
          [NaN, NaN, NaN, NaN],
          [Fin 0, Fin 0, Fin 0, Fin 1]] 0)
     (rotation_row
         [[NaN, NaN, NaN, NaN],
          [Fin 0, Fin (1 / sqrt 2), Fin (1 / sqrt 2), Fin (- (1 / sqrt 2))],
          [NaN, NaN, NaN, NaN],
          [Fin 0, Fin 0, Fin 0, Fin 1]] 1) = NaN"
  by (simp add: get_acpc_transformation_def Let_def np_linalg_norm_def fsub_def collinear3_def
        rotation_row_def)

text \<open>
  C6. The claim: for distinct \<open>ac\<close>, \<open>pc\<close> and \<open>ih\<close> off their line, the rotation block
  maps \<open>ac - pc\<close> to \<open>(0, |ac - pc|, 0)\<close>. The code at the points above with
  \<open>center_on = AC\<close>: the product is \<open>(NaN, sqrt 2, NaN)\<close>.
\<close>

theorem axis_alignment_fails_at:
  "(0::real, 1::real, 1::real) \<noteq> (0, 0, 0) \<and> \<not> collinear3 (0, 1, 1) (0, 0, 0) (0, 2, 0) \<and>
   get_acpc_transformation (fin3 (0, 1, 1)) (fin3 (0, 0, 0)) (fin3 (0, 2, 0)) ''AC'' =
     Inr [[NaN, NaN, NaN, NaN],
          [Fin 0, Fin (1 / sqrt 2), Fin (1 / sqrt 2), Fin (- (2 / sqrt 2))],
          [NaN, NaN, NaN, NaN],
          [Fin 0, Fin 0, Fin 0, Fin 1]] \<and>
   np_dot_mat (rotation_block
         [[NaN, NaN, NaN, NaN],
          [Fin 0, Fin (1 / sqrt 2), Fin (1 / sqrt 2), Fin (- (2 / sqrt 2))],
          [NaN, NaN, NaN, NaN],
          [Fin 0, Fin 0, Fin 0, Fin 1]]) (vsub (fin3 (0, 1, 1)) (fin3 (0, 0, 0)))
     = (NaN, Fin (sqrt 2), NaN)"
  by (simp add: get_acpc_transformation_def Let_def np_linalg_norm_def fsub_def collinear3_def
        rotation_block_def rotation_row_def real_div_sqrt)

end
